theory Spec2Isabelle
  imports Complex_Main "HOL-Library.Word"
begin

section \<open>The Python values the service handles\<close>

text \<open>
  A Python \<open>str\<close> is a sequence of Unicode code points, and \<open>len\<close> counts code
  points. A string is therefore a list of code points (natural numbers), not a list of
  bytes. \<open>bytes\<close> are lists of 8-bit words.
\<close>

type_synonym str = "nat list"
type_synonym bytes = "8 word list"

text \<open>
  Exceptions are values. \<open>HTTPException\<close> carries the status code and the detail
  text; the others are exceptions that no handler catches, which the framework answers
  with status 500. \<open>IntegrityError\<close> and \<open>DBAPIError\<close> are sqlalchemy's: a
  constraint broken by an INSERT, and a statement whose parameters the driver or the
  server refuses.
\<close>

datatype error =
    HTTPException nat string
  | UnicodeEncodeError
  | TypeError
  | IntegrityError
  | DBAPIError

fun status_code :: "error \<Rightarrow> nat" where
  "status_code (HTTPException code detail) = code"
| "status_code UnicodeEncodeError = 500"
| "status_code TypeError = 500"
| "status_code IntegrityError = 500"
| "status_code DBAPIError = 500"

text \<open>
  The builtins of the Python runtime that the source calls and that are tables of the
  Unicode database or library code: \<open>str.lower\<close>, the whitespace class that
  \<open>str.strip\<close> removes, the class \<open>\w\<close> of module \<open>re\<close>, and
  \<open>hashlib.sha256(b).hexdigest()\<close>. They are parameters of the model: every
  definition below takes them in a record, and every theorem holds for whatever they are.
\<close>

record pylib =
  str_lower :: "str \<Rightarrow> str"
  isspace :: "nat \<Rightarrow> bool"
  re_word :: "nat \<Rightarrow> bool"
  sha256_hexdigest :: "bytes \<Rightarrow> str"

text \<open>\<open>s.strip()\<close>: leading and trailing whitespace removed.\<close>

definition strip :: "pylib \<Rightarrow> str \<Rightarrow> str" where
  "strip L s = rev (dropWhile (isspace L) (rev (dropWhile (isspace L) s)))"

text \<open>
  \<open>s.encode("utf-8")\<close>. A \<open>str\<close> can hold a lone surrogate (JSON
  \<open>"\ud800"\<close> decodes to one); encoding it raises \<open>UnicodeEncodeError\<close>.
  Numbers from \<open>0x110000\<close> on are not code points and no \<open>str\<close> holds them;
  the model gives them the same error.
\<close>

definition utf8_of_codepoint :: "nat \<Rightarrow> error + bytes" where
  "utf8_of_codepoint c =
     (if c < 0x80 then Inr [of_nat c]
      else if c < 0x800 then Inr [of_nat (0xC0 + c div 0x40), of_nat (0x80 + c mod 0x40)]
      else if 0xD800 \<le> c \<and> c \<le> 0xDFFF then Inl UnicodeEncodeError
      else if c < 0x10000 then
        Inr [of_nat (0xE0 + c div 0x1000), of_nat (0x80 + (c div 0x40) mod 0x40),
             of_nat (0x80 + c mod 0x40)]
      else if c < 0x110000 then
        Inr [of_nat (0xF0 + c div 0x40000), of_nat (0x80 + (c div 0x1000) mod 0x40),
             of_nat (0x80 + (c div 0x40) mod 0x40), of_nat (0x80 + c mod 0x40)]
      else Inl UnicodeEncodeError)"

fun encode_utf8 :: "str \<Rightarrow> error + bytes" where
  "encode_utf8 [] = Inr []"
| "encode_utf8 (c # cs) =
     (case utf8_of_codepoint c of
        Inl e \<Rightarrow> Inl e
      | Inr b \<Rightarrow> (case encode_utf8 cs of Inl e \<Rightarrow> Inl e | Inr bs \<Rightarrow> Inr (b @ bs)))"

text \<open>
  \<open>re.findall(r"\b\w+\b", s)\<close>: scanning from the left, a match starts at a word
  character that follows a non-word character (or the start), \<open>\w+\<close> is greedy and
  takes the whole run, and the position after a maximal run is a word boundary. The
  matches are the maximal runs of word characters.
\<close>

function re_findall_words :: "(nat \<Rightarrow> bool) \<Rightarrow> str \<Rightarrow> str list" where
  "re_findall_words w [] = []"
| "re_findall_words w (c # cs) =
     (if w c then takeWhile w (c # cs) # re_findall_words w (dropWhile w cs)
      else re_findall_words w cs)"
  by pat_completeness auto
termination
  by (relation "measure (\<lambda>(w, s). length s)")
     (auto simp: length_dropWhile_le le_imp_less_Suc)

section \<open>The analyzer: \<open>hng/utils.py\<close>\<close>

record properties =
  length_p :: int
  is_palindrome_p :: bool
  unique_characters_p :: int
  word_count_p :: int
  sha256_hash_p :: str
  character_frequency_map_p :: "str \<rightharpoonup> int"

definition get_word_count :: "pylib \<Rightarrow> str \<Rightarrow> int" where
  "get_word_count L sentence =
     (let words = re_findall_words (re_word L) (str_lower L sentence)
      in int (length words))"

definition get_is_palindrome :: "pylib \<Rightarrow> str \<Rightarrow> bool" where
  "get_is_palindrome L sentence =
     (let normalized = str_lower L sentence in normalized = rev normalized)"

definition get_unique_characters :: "pylib \<Rightarrow> str \<Rightarrow> int" where
  "get_unique_characters L sentence = int (card (set (str_lower L sentence)))"

text \<open>
  The loop body of \<open>get_character_frequency_map\<close>: \<open>char\<close> is a one-character
  string, \<open>char.strip()\<close> is falsy exactly when stripping leaves the empty string.
\<close>

definition count_char :: "pylib \<Rightarrow> (str \<rightharpoonup> int) \<Rightarrow> nat \<Rightarrow> (str \<rightharpoonup> int)" where
  "count_char L freq c =
     (let char = [c] in
      if strip L char \<noteq> [] then
        freq(char \<mapsto> (case freq char of None \<Rightarrow> 0 | Some n \<Rightarrow> n) + 1)
      else freq)"

definition get_character_frequency_map :: "pylib \<Rightarrow> str \<Rightarrow> (str \<rightharpoonup> int)" where
  "get_character_frequency_map L sentence =
     foldl (count_char L) Map.empty (str_lower L sentence)"

definition get_sha256 :: "pylib \<Rightarrow> str \<Rightarrow> error + str" where
  "get_sha256 L sentence =
     (case encode_utf8 (str_lower L sentence) of
        Inl e \<Rightarrow> Inl e
      | Inr b \<Rightarrow> Inr (sha256_hexdigest L b))"

text \<open>
  \<open>create_properties\<close> builds the dict in the order of its keys; the only entry that
  can raise is \<open>sha256_hash\<close>. \<open>length\<close> is \<open>len(sentence)\<close> of the argument as
  passed; the other five lowercase it again themselves.
\<close>

definition create_properties :: "pylib \<Rightarrow> str \<Rightarrow> error + properties" where
  "create_properties L sentence =
     (case get_sha256 L sentence of
        Inl e \<Rightarrow> Inl e
      | Inr h \<Rightarrow>
          Inr \<lparr> length_p = int (length sentence),
                is_palindrome_p = get_is_palindrome L sentence,
                unique_characters_p = get_unique_characters L sentence,
                word_count_p = get_word_count L sentence,
                sha256_hash_p = h,
                character_frequency_map_p = get_character_frequency_map L sentence \<rparr>)"

section \<open>Request values and the table: \<open>hng/schema\<close>, \<open>hng/model/analyser.py\<close>\<close>

text \<open>
  \<open>GetRequest.value\<close> is typed \<open>Any\<close>: the handler receives whatever JSON value
  the body holds. \<open>JFloat\<close> is a finite float by its exact value, \<open>JNonFinite\<close> an
  infinity or a NaN (\<open>json.loads\<close> reads \<open>Infinity\<close>, \<open>NaN\<close> and \<open>1e400\<close>).
\<close>

datatype json =
    JNull
  | JBool bool
  | JInt int
  | JFloat rat
  | JNonFinite
  | JStr str
  | JList "json list"
  | JDict "(str \<times> json) list"

text \<open>Python's truth value of a JSON value: what \<open>not v\<close> and \<open>if v\<close> test.\<close>

fun truthy :: "json \<Rightarrow> bool" where
  "truthy JNull = False"
| "truthy (JBool b) = b"
| "truthy (JInt i) = (i \<noteq> 0)"
| "truthy (JFloat x) = (x \<noteq> 0)"
| "truthy JNonFinite = True"
| "truthy (JStr s) = (s \<noteq> [])"
| "truthy (JList xs) = (xs \<noteq> [])"
| "truthy (JDict kvs) = (kvs \<noteq> [])"

fun isinstance_str :: "json \<Rightarrow> bool" where
  "isinstance_str (JStr s) = True"
| "isinstance_str v = False"

text \<open>A row of table \<open>analyser\<close>; \<open>created_at\<close> is a point in time.\<close>

record analyser =
  id_col :: str
  sha256_hash_col :: str
  value_col :: str
  length_col :: int
  word_count_col :: int
  is_palindrome_col :: bool
  unique_characters_col :: int
  character_frequency_map_col :: "str \<rightharpoonup> int"
  created_at_col :: nat

record string_response =
  id_r :: str
  value_r :: str
  properties_r :: properties
  created_at_r :: nat

record list_response =
  data_r :: "string_response list"
  count_r :: int
  filters_applied_r :: "(string \<times> json) list"

text \<open>
  The database as the handlers see it through their session: the rows of the table in
  the order they were inserted, and the number of statements sent so far.
\<close>

record db_state =
  analyser_table :: "analyser list"
  statements :: nat

definition empty_db :: db_state where
  "empty_db = \<lparr> analyser_table = [], statements = 0 \<rparr>"

definition execute :: "db_state \<Rightarrow> db_state" where
  "execute S = S\<lparr> statements := Suc (statements S) \<rparr>"

text \<open>\<open>session.get(Analyser, pk)\<close>: the row with that primary key, or \<open>None\<close>.\<close>

definition session_get :: "db_state \<Rightarrow> str \<Rightarrow> analyser option" where
  "session_get S pk = find (\<lambda>r. id_col r = pk) (analyser_table S)"

text \<open>
  \<open>session.add(db); await session.commit()\<close>: the INSERT. The table has primary key
  \<open>id\<close> and \<open>UniqueConstraint("value")\<close>; a row that breaks either is refused with
  \<open>IntegrityError\<close> and the transaction leaves the table as it was.
\<close>

definition add_commit :: "analyser \<Rightarrow> db_state \<Rightarrow> error + db_state" where
  "add_commit db S =
     (if list_ex (\<lambda>r. id_col r = id_col db \<or> value_col r = value_col db) (analyser_table S)
      then Inl IntegrityError
      else Inr (S\<lparr> analyser_table := analyser_table S @ [db] \<rparr>))"

text \<open>\<open>PropertiesModel(**row.__dict__)\<close>: the six property columns of a row.\<close>

definition properties_of_row :: "analyser \<Rightarrow> properties" where
  "properties_of_row r =
     \<lparr> length_p = length_col r,
       is_palindrome_p = is_palindrome_col r,
       unique_characters_p = unique_characters_col r,
       word_count_p = word_count_col r,
       sha256_hash_p = sha256_hash_col r,
       character_frequency_map_p = character_frequency_map_col r \<rparr>"

section \<open>The handlers: \<open>hng/routes/route.py\<close>\<close>

definition DOES_NOT_EXIST :: string where
  "DOES_NOT_EXIST = ''value does not exist''"

definition DUPLICATE_VALUE :: string where
  "DUPLICATE_VALUE = ''String already exists in the system''"

definition NOT_STRING :: string where
  "NOT_STRING = [CHR 0x22] @ ''value'' @ [CHR 0x22] @ '' must be a string''"

definition EMPTY_STRING :: string where
  "EMPTY_STRING = [CHR 0x22] @ ''value'' @ [CHR 0x22] @ '' field is required''"

subsection \<open>\<open>POST /strings/\<close>\<close>

text \<open>
  \<open>now\<close> is what \<open>datetime.now(UTC)\<close> returns. Note that the duplicate check by value
  compares against \<open>req.value\<close> as sent, while the row stores the stripped value.
\<close>

definition create_string ::
  "pylib \<Rightarrow> nat \<Rightarrow> json \<Rightarrow> db_state \<Rightarrow> (error + string_response) \<times> db_state" where
  "create_string L now req_value S =
     (if \<not> truthy req_value then (Inl (HTTPException 400 EMPTY_STRING), S)
      else case req_value of
        JStr s \<Rightarrow>
          (let val = strip L s in
           case create_properties L (str_lower L val) of
             Inl e \<Rightarrow> (Inl e, S)
           | Inr prop \<Rightarrow>
               (let S1 = execute S in
                if session_get S1 (sha256_hash_p prop) \<noteq> None
                then (Inl (HTTPException 409 DUPLICATE_VALUE), S1)
                else
                  (let S2 = execute S1;
                       data_row = find (\<lambda>r. value_col r = s) (analyser_table S2)
                   in if data_row \<noteq> None
                      then (Inl (HTTPException 409 DUPLICATE_VALUE), S2)
                      else
                        (let db = \<lparr> id_col = sha256_hash_p prop,
                                    sha256_hash_col = sha256_hash_p prop,
                                    value_col = val,
                                    length_col = length_p prop,
                                    word_count_col = word_count_p prop,
                                    is_palindrome_col = is_palindrome_p prop,
                                    unique_characters_col = unique_characters_p prop,
                                    character_frequency_map_col =
                                      character_frequency_map_p prop,
                                    created_at_col = now \<rparr>
                         in case add_commit db (execute S2) of
                              Inl e \<Rightarrow> (Inl e, execute S2)
                            | Inr S3 \<Rightarrow>
                                (Inr \<lparr> id_r = id_col db, value_r = value_col db,
                                       properties_r = prop,
                                       created_at_r = created_at_col db \<rparr>,
                                 execute S3)))))
      | _ \<Rightarrow> (Inl (HTTPException 422 NOT_STRING), S))"

subsection \<open>\<open>GET /strings/{string_value}\<close>\<close>

definition get_string ::
  "pylib \<Rightarrow> str \<Rightarrow> db_state \<Rightarrow> (error + string_response) \<times> db_state" where
  "get_string L string_value S =
     (let val = strip L string_value in
      case get_sha256 L (str_lower L val) of
        Inl e \<Rightarrow> (Inl e, S)
      | Inr ident \<Rightarrow>
          (let S1 = execute S;
               result = find (\<lambda>r. id_col r = ident) (analyser_table S1)
           in case result of
                None \<Rightarrow> (Inl (HTTPException 404 DOES_NOT_EXIST), S1)
              | Some r \<Rightarrow>
                  (Inr \<lparr> id_r = id_col r, value_r = value_col r,
                         properties_r = properties_of_row r,
                         created_at_r = created_at_col r \<rparr>, S1)))"

subsection \<open>\<open>GET /strings/\<close>\<close>

text \<open>
  The guard \<open>max_length and min_length and max_length < min_length\<close>: an
  \<open>int | None\<close> is truthy when it is an integer other than \<open>0\<close>.
\<close>

fun max_below_min :: "int option \<Rightarrow> int option \<Rightarrow> bool" where
  "max_below_min (Some mx) (Some mn) = (mx \<noteq> 0 \<and> mn \<noteq> 0 \<and> mx < mn)"
| "max_below_min mx mn = False"

text \<open>The SQL conditions the handler collects, and when a row satisfies one.\<close>

datatype condition =
    IsPalindromeEq bool
  | LengthGe int
  | LengthLe int
  | WordCountEq int
  | FrequencyMapHasKey str

fun holds :: "condition \<Rightarrow> analyser \<Rightarrow> bool" where
  "holds (IsPalindromeEq b) r = (is_palindrome_col r = b)"
| "holds (LengthGe n) r = (length_col r \<ge> n)"
| "holds (LengthLe n) r = (length_col r \<le> n)"
| "holds (WordCountEq n) r = (word_count_col r = n)"
| "holds (FrequencyMapHasKey k) r = (character_frequency_map_col r k \<noteq> None)"

text \<open>
  Lines 226 to 244: \<open>condition\<close> and \<open>params\<close> grow together, one test after the
  other. The first four test \<open>is not None\<close>; the last tests the truth value of the
  string, so an empty \<open>contains_character\<close> adds nothing.
\<close>

definition filter_conditions ::
  "pylib \<Rightarrow> bool option \<Rightarrow> int option \<Rightarrow> int option \<Rightarrow> int option \<Rightarrow> str option
     \<Rightarrow> condition list \<times> (string \<times> json) list" where
  "filter_conditions L is_palindrome min_length max_length word_count contains_character =
     (let cp0 = ([], []);
          cp1 = (case is_palindrome of
                   None \<Rightarrow> cp0
                 | Some b \<Rightarrow> (fst cp0 @ [IsPalindromeEq b],
                              snd cp0 @ [(''is_palindrome'', JBool b)]));
          cp2 = (case min_length of
                   None \<Rightarrow> cp1
                 | Some n \<Rightarrow> (fst cp1 @ [LengthGe n], snd cp1 @ [(''min_length'', JInt n)]));
          cp3 = (case max_length of
                   None \<Rightarrow> cp2
                 | Some n \<Rightarrow> (fst cp2 @ [LengthLe n], snd cp2 @ [(''max_length'', JInt n)]));
          cp4 = (case word_count of
                   None \<Rightarrow> cp3
                 | Some n \<Rightarrow> (fst cp3 @ [WordCountEq n], snd cp3 @ [(''word_count'', JInt n)]))
      in case contains_character of
           None \<Rightarrow> cp4
         | Some s \<Rightarrow>
             if s \<noteq> [] then
               (let char = str_lower L (strip L s)
                in (fst cp4 @ [FrequencyMapHasKey char],
                    snd cp4 @ [(''contains_character'', JStr s)]))
             else cp4)"

definition string_response_of_row :: "analyser \<Rightarrow> string_response" where
  "string_response_of_row r =
     \<lparr> id_r = id_col r, value_r = value_col r, properties_r = properties_of_row r,
       created_at_r = created_at_col r \<rparr>"

text \<open>
  The parameters a condition binds. Columns \<open>length\<close> and \<open>word_count\<close> are
  \<open>Mapped[int]\<close>, PostgreSQL \<open>INTEGER\<close>: the driver refuses an integer outside
  32 bits. The key of \<open>has_key\<close> is bound as text, which PostgreSQL refuses when it
  holds the character NUL or has no UTF-8 encoding.
\<close>

definition int32 :: "int \<Rightarrow> bool" where
  "int32 n = (- 2147483648 \<le> n \<and> n \<le> 2147483647)"

definition pg_text :: "str \<Rightarrow> bool" where
  "pg_text k = (0 \<notin> set k \<and> (case encode_utf8 k of Inl e \<Rightarrow> False | Inr b \<Rightarrow> True))"

fun bindable :: "condition \<Rightarrow> bool" where
  "bindable (IsPalindromeEq b) = True"
| "bindable (LengthGe n) = int32 n"
| "bindable (LengthLe n) = int32 n"
| "bindable (WordCountEq n) = int32 n"
| "bindable (FrequencyMapHasKey k) = pg_text k"

text \<open>
  \<open>session.execute(select(Analyser).where(and_(*condition)))\<close>: the rows that
  satisfy every condition, or \<open>DBAPIError\<close> when a parameter is refused.
\<close>

definition select_where :: "condition list \<Rightarrow> db_state \<Rightarrow> error + analyser list" where
  "select_where condition S =
     (if list_all bindable condition
      then Inr (filter (\<lambda>r. list_all (\<lambda>c. holds c r) condition) (analyser_table S))
      else Inl DBAPIError)"

definition get_all_strings ::
  "pylib \<Rightarrow> bool option \<Rightarrow> int option \<Rightarrow> int option \<Rightarrow> int option \<Rightarrow> str option
     \<Rightarrow> db_state \<Rightarrow> (error + list_response) \<times> db_state" where
  "get_all_strings L is_palindrome min_length max_length word_count contains_character S =
     (if max_below_min max_length min_length
      then (Inl (HTTPException 422 ''Max length must be greater than Min length''), S)
      else
        (let cp = filter_conditions L is_palindrome min_length max_length word_count
                    contains_character;
             condition = fst cp; params = snd cp
         in if condition = [] then (Inl (HTTPException 404 DOES_NOT_EXIST), S)
            else
              (let S1 = execute S
               in case select_where condition S1 of
                    Inl e \<Rightarrow> (Inl e, S1)
                  | Inr result \<Rightarrow>
                      if result = [] then (Inl (HTTPException 404 DOES_NOT_EXIST), S1)
                      else
                        (let data = map string_response_of_row result
                         in (Inr \<lparr> data_r = data, count_r = int (length data),
                                    filters_applied_r = params \<rparr>, S1)))))"

subsection \<open>\<open>GET /strings/filter-by-natural-language\<close>\<close>

text \<open>
  What the one call to the remote service brings back: \<open>client.get\<close> raises
  \<open>httpx.RequestError\<close> (with its text), \<open>raise_for_status\<close> raises
  \<open>httpx.HTTPStatusError\<close> (with the response text), or there is a response whose
  body \<open>response.json()\<close> parses (\<open>Some\<close>) or rejects with \<open>JSONDecodeError\<close>
  (\<open>None\<close>).
\<close>

datatype upstream_reply =
    RequestError string
  | HTTPStatusError string
  | Response "json option"

text \<open>
  \<open>await v\<close> on a value that \<open>response.json()\<close> returned. \<open>await\<close> needs an
  awaitable; a dict, list, str, int, float, bool or \<open>None\<close> is none, and Python raises
  \<open>TypeError\<close> (object dict can't be used in 'await' expression).
\<close>

fun py_await :: "json \<Rightarrow> error + json" where
  "py_await v = Inl TypeError"

text \<open>
  The handler up to its \<open>return await parsed_filters\<close> on line 322. The lines after
  it (324 to 378) cannot run and have no counterpart here.
\<close>

definition filter_by_natural_language ::
  "upstream_reply \<Rightarrow> str \<Rightarrow> db_state \<Rightarrow> (error + json) \<times> db_state" where
  "filter_by_natural_language reply query S =
     (case reply of
        RequestError exc \<Rightarrow>
          (Inl (HTTPException 502 (''Failed to reach NLP API: '' @ exc)), S)
      | HTTPStatusError text \<Rightarrow>
          (Inl (HTTPException 500 (''NLP API returned error: '' @ text)), S)
      | Response None \<Rightarrow>
          (Inl (HTTPException 502 ''Invalid JSON returned from NLP API''), S)
      | Response (Some parsed_filters) \<Rightarrow>
          if \<not> truthy parsed_filters
          then (Inl (HTTPException 400 ''Unable to parse natural language query''), S)
          else (py_await parsed_filters, S))"

subsection \<open>The service as a whole\<close>

text \<open>
  The four operations the router exposes, with what each request carries, and the state
  after a request and after a sequence of them.
\<close>

datatype request =
    PostStrings nat json
  | GetString str
  | GetAllStrings "bool option" "int option" "int option" "int option" "str option"
  | FilterByNaturalLanguage upstream_reply str

fun handle :: "pylib \<Rightarrow> request \<Rightarrow> db_state \<Rightarrow> db_state" where
  "handle L (PostStrings now v) S = snd (create_string L now v S)"
| "handle L (GetString string_value) S = snd (get_string L string_value S)"
| "handle L (GetAllStrings ip mn mx wc cc) S = snd (get_all_strings L ip mn mx wc cc S)"
| "handle L (FilterByNaturalLanguage reply query) S =
     snd (filter_by_natural_language reply query S)"

definition run :: "pylib \<Rightarrow> request list \<Rightarrow> db_state \<Rightarrow> db_state" where
  "run L reqs S = foldl (\<lambda>S' req. handle L req S') S reqs"

subsection \<open>The router\<close>

text \<open>
  A GET request for the path \<open>/strings/<seg>\<close> without a query string, where
  \<open>seg\<close> is the rest of the path as the server has percent-decoded it. The routes
  are tried in the order they are registered (lines 143, 185 and 269). The template
  \<open>/{string_value}\<close> matches a segment that is not empty and holds no \<open>/\<close>
  (code point 47) and binds it as it is; the template \<open>/\<close> matches the empty
  segment. For any other segment no handler of the module runs and the framework
  answers by itself, with 404 or with a redirect.
\<close>

datatype get_reply =
    FromGetString "error + string_response"
  | FromGetAllStrings "error + list_response"
  | FromRouter

definition get_strings_path :: "pylib \<Rightarrow> str \<Rightarrow> db_state \<Rightarrow> get_reply \<times> db_state" where
  "get_strings_path L seg S =
     (if seg \<noteq> [] \<and> 47 \<notin> set seg then
        (let res = get_string L seg S in (FromGetString (fst res), snd res))
      else if seg = [] then
        (let res = get_all_strings L None None None None None S
         in (FromGetAllStrings (fst res), snd res))
      else (FromRouter, S))"

section \<open>A small runtime to evaluate the definitions on\<close>

text \<open>
  An instance of the runtime record for running the definitions on concrete inputs:
  \<open>A\<close> to \<open>Z\<close> lowercase by adding 32, \<open>U+0130\<close> lowercases to the two code
  points \<open>U+0069 U+0307\<close> as in Python, everything else is unchanged; whitespace and
  word characters are the ASCII ones; and the digest is the hexadecimal text of the bytes
  themselves, which stands in for SHA-256 in evaluated examples only.
\<close>

definition lower_codepoint :: "nat \<Rightarrow> str" where
  "lower_codepoint c =
     (if 65 \<le> c \<and> c \<le> 90 then [c + 32]
      else if c = 0x130 then [0x69, 0x307]
      else [c])"

definition hexdigit :: "nat \<Rightarrow> nat" where
  "hexdigit n = (if n < 10 then 48 + n else 87 + n)"

definition hex_of_bytes :: "bytes \<Rightarrow> str" where
  "hex_of_bytes bs = concat (map (\<lambda>b. [hexdigit (unat b div 16), hexdigit (unat b mod 16)]) bs)"

definition small_lib :: pylib where
  "small_lib =
     \<lparr> str_lower = (\<lambda>s. concat (map lower_codepoint s)),
       isspace = (\<lambda>c. c \<in> {9, 10, 11, 12, 13, 28, 29, 30, 31, 32}),
       re_word = (\<lambda>c. (48 \<le> c \<and> c \<le> 57) \<or> (65 \<le> c \<and> c \<le> 90) \<or> c = 95
                       \<or> (97 \<le> c \<and> c \<le> 122)),
       sha256_hexdigest = hex_of_bytes \<rparr>"

text \<open>ASCII text as a \<open>str\<close>, to write examples with.\<close>

definition ascii :: "string \<Rightarrow> str" where
  "ascii cs = map of_char cs"

section \<open>Properties the specification names\<close>

text \<open>
  A string equals its own reverse character for character: each position holds the
  character of the mirrored position.
\<close>

definition reads_same_backwards :: "str \<Rightarrow> bool" where
  "reads_same_backwards t = (\<forall>i < length t. t ! i = t ! (length t - Suc i))"

text \<open>
  The invariant of a stored record: \<open>id\<close> and \<open>sha256_hash\<close> are equal, they are the
  hexadecimal SHA-256 digest of the UTF-8 bytes of the lowercased stored \<open>value\<close>, and
  no key of the frequency map is whitespace only.
\<close>

definition record_invariant :: "pylib \<Rightarrow> analyser \<Rightarrow> bool" where
  "record_invariant L r =
     (id_col r = sha256_hash_col r
      \<and> (\<exists>b. encode_utf8 (str_lower L (value_col r)) = Inr b
              \<and> sha256_hash_col r = sha256_hexdigest L b)
      \<and> (\<forall>k \<in> dom (character_frequency_map_col r). strip L k \<noteq> []))"

section \<open>Facts about the model\<close>

lemmas small_defs =
  create_string_def create_properties_def get_sha256_def small_lib_def ascii_def
  lower_codepoint_def strip_def utf8_of_codepoint_def hex_of_bytes_def hexdigit_def
  empty_db_def execute_def session_get_def add_commit_def Let_def
  get_is_palindrome_def get_unique_characters_def get_word_count_def
  get_character_frequency_map_def count_char_def

lemmas list_defs =
  get_all_strings_def filter_conditions_def select_where_def string_response_of_row_def
  properties_of_row_def DOES_NOT_EXIST_def int32_def pg_text_def

lemma strip_single: "strip L [c] \<noteq> [] \<longleftrightarrow> \<not> isspace L c"
  by (simp add: strip_def)

text \<open>Stripping a stripped string changes nothing.\<close>

lemma strip_idem: "strip L (strip L s) = strip L s"
proof -
  let ?P = "isspace L"
  define t where "t = dropWhile ?P s"
  define u where "u = rev (dropWhile ?P (rev t))"
  have t_split: "t = u @ rev (takeWhile ?P (rev t))"
  proof -
    have "u @ rev (takeWhile ?P (rev t)) = rev (takeWhile ?P (rev t) @ dropWhile ?P (rev t))"
      unfolding u_def by (simp only: rev_append)
    also have "\<dots> = rev (rev t)" by (simp only: takeWhile_dropWhile_id)
    finally show ?thesis by simp
  qed
  have front: "dropWhile ?P u = u"
  proof (cases "u = []")
    case True then show ?thesis by simp
  next
    case False
    then have "hd u = hd t" using t_split by (metis hd_append2)
    moreover have "t \<noteq> []" using False t_split by auto
    then have "\<not> ?P (hd t)" unfolding t_def by (rule hd_dropWhile)
    ultimately show ?thesis using False by (simp add: dropWhile_eq_self_iff)
  qed
  have rear: "dropWhile ?P (rev u) = rev u"
  proof (cases "u = []")
    case True then show ?thesis by simp
  next
    case False
    then have "dropWhile ?P (rev t) \<noteq> []" by (simp add: u_def)
    then have "\<not> ?P (hd (dropWhile ?P (rev t)))" by (rule hd_dropWhile)
    then show ?thesis by (simp add: u_def dropWhile_eq_self_iff)
  qed
  have "strip L s = u" by (simp add: strip_def u_def t_def)
  moreover have "strip L u = u" by (simp add: strip_def front rear)
  ultimately show ?thesis by simp
qed

lemma table_execute [simp]: "analyser_table (execute S) = analyser_table S"
  by (simp add: execute_def)

text \<open>What a successful \<open>create_string\<close> has done, and what a failed one has not.\<close>

lemma create_string_success:
  assumes "create_string L now v S = (Inr r, S')"
  shows "\<exists>s prop. v = JStr s
           \<and> create_properties L (str_lower L (strip L s)) = Inr prop
           \<and> find (\<lambda>x. id_col x = sha256_hash_p prop) (analyser_table S) = None
           \<and> r = \<lparr> id_r = sha256_hash_p prop, value_r = strip L s, properties_r = prop,
                    created_at_r = now \<rparr>
           \<and> analyser_table S' = analyser_table S @
               [\<lparr> id_col = sha256_hash_p prop, sha256_hash_col = sha256_hash_p prop,
                   value_col = strip L s, length_col = length_p prop,
                   word_count_col = word_count_p prop,
                   is_palindrome_col = is_palindrome_p prop,
                   unique_characters_col = unique_characters_p prop,
                   character_frequency_map_col = character_frequency_map_p prop,
                   created_at_col = now \<rparr>]"
  using assms
  by (auto simp: create_string_def Let_def session_get_def add_commit_def
           split: if_splits json.splits sum.splits)

lemma create_string_failure:
  assumes "create_string L now v S = (Inl e, S')"
  shows "analyser_table S' = analyser_table S"
  using assms
  by (auto simp: create_string_def Let_def session_get_def add_commit_def
           split: if_splits json.splits sum.splits)

lemma find_append_None:
  "find P xs = None \<Longrightarrow> find P (xs @ ys) = find P ys"
  by (induction xs) (auto split: if_splits)

lemma create_properties_hash:
  "create_properties L x = Inr p \<Longrightarrow> get_sha256 L x = Inr (sha256_hash_p p)"
  by (auto simp: create_properties_def split: sum.splits)

lemma rev_eq_iff_mirror: "(t = rev t) \<longleftrightarrow> reads_same_backwards t"
  unfolding reads_same_backwards_def
  by (auto simp: list_eq_iff_nth_eq rev_nth)

text \<open>The keys of the frequency map are single characters that are not whitespace.\<close>

lemma dom_count_chars:
  "k \<in> dom (foldl (count_char L) m xs) \<Longrightarrow> k \<in> dom m \<or> (\<exists>c. k = [c] \<and> \<not> isspace L c)"
proof (induction xs arbitrary: m)
  case Nil
  then show ?case by simp
next
  case (Cons x xs)
  from Cons.prems have "k \<in> dom (foldl (count_char L) (count_char L m x) xs)" by simp
  from Cons.IH [OF this] show ?case
    by (auto simp: count_char_def Let_def strip_single split: if_splits)
qed

lemma frequency_map_keys:
  "k \<in> dom (get_character_frequency_map L s) \<Longrightarrow> strip L k \<noteq> []"
proof -
  assume "k \<in> dom (get_character_frequency_map L s)"
  then have "k \<in> dom (foldl (count_char L) Map.empty (str_lower L s))"
    by (simp add: get_character_frequency_map_def)
  from dom_count_chars [OF this] obtain c where "k = [c]" "\<not> isspace L c" by auto
  then show ?thesis by (simp add: strip_single)
qed

text \<open>The three reading handlers leave the table alone.\<close>

lemma get_string_table: "analyser_table (snd (get_string L sv S)) = analyser_table S"
  by (simp add: get_string_def Let_def split: sum.splits option.splits)

lemma get_all_strings_table:
  "analyser_table (snd (get_all_strings L ip mn mx wc cc S)) = analyser_table S"
  by (simp add: get_all_strings_def Let_def split: sum.splits)

lemma filter_by_natural_language_state: "snd (filter_by_natural_language reply query S) = S"
  by (simp add: filter_by_natural_language_def split: upstream_reply.splits option.splits)

text \<open>The row \<open>create_string\<close> builds satisfies the invariant when lowercasing twice
  is lowercasing once.\<close>

lemma new_row_invariant:
  assumes idem: "\<And>s. str_lower L (str_lower L s) = str_lower L s"
    and p: "create_properties L (str_lower L v) = Inr p"
  shows "record_invariant L
           \<lparr> id_col = sha256_hash_p p, sha256_hash_col = sha256_hash_p p,
             value_col = v, length_col = length_p p,
             word_count_col = word_count_p p,
             is_palindrome_col = is_palindrome_p p,
             unique_characters_col = unique_characters_p p,
             character_frequency_map_col = character_frequency_map_p p,
             created_at_col = now \<rparr>"
proof -
  have low: "str_lower L (str_lower L v) = str_lower L v"
    by (rule idem)
  from p have "\<exists>b. encode_utf8 (str_lower L v) = Inr b \<and> sha256_hash_p p = sha256_hexdigest L b"
    by (auto simp: create_properties_def get_sha256_def low split: sum.splits)
  moreover from p have
    "character_frequency_map_p p = get_character_frequency_map L (str_lower L v)"
    by (auto simp: create_properties_def split: sum.splits)
  ultimately show ?thesis
    using frequency_map_keys [of _ L "str_lower L v"]
    by (simp add: record_invariant_def)
qed

lemma handle_step:
  assumes idem: "\<And>s. str_lower L (str_lower L s) = str_lower L s"
    and inv: "list_all (record_invariant L) (analyser_table S)"
  shows "list_all (record_invariant L) (analyser_table (handle L req S))
         \<and> (\<exists>new. analyser_table (handle L req S) = analyser_table S @ new)"
proof (cases req)
  case (PostStrings now v)
  obtain res S' where c: "create_string L now v S = (res, S')"
    by (cases "create_string L now v S")
  show ?thesis
  proof (cases res)
    case (Inl e)
    with c have "analyser_table S' = analyser_table S" by (simp add: create_string_failure)
    with inv c PostStrings show ?thesis by simp
  next
    case (Inr r)
    with c have "create_string L now v S = (Inr r, S')" by simp
    from create_string_success [OF this] obtain s p where
      p: "create_properties L (str_lower L (strip L s)) = Inr p" and
      tbl: "analyser_table S' = analyser_table S @
               [\<lparr> id_col = sha256_hash_p p, sha256_hash_col = sha256_hash_p p,
                   value_col = strip L s, length_col = length_p p,
                   word_count_col = word_count_p p,
                   is_palindrome_col = is_palindrome_p p,
                   unique_characters_col = unique_characters_p p,
                   character_frequency_map_col = character_frequency_map_p p,
                   created_at_col = now \<rparr>]"
      by auto
    from new_row_invariant [OF idem p] inv tbl c PostStrings show ?thesis by simp
  qed
next
  case (GetString sv)
  with inv show ?thesis by (simp add: get_string_table)
next
  case (GetAllStrings ip mn mx wc cc)
  with inv show ?thesis by (simp add: get_all_strings_table)
next
  case (FilterByNaturalLanguage reply query)
  with inv show ?thesis by (simp add: filter_by_natural_language_state)
qed

text \<open>Whatever the runtime, a request leaves the rows of the table where they are.\<close>

lemma handle_grows: "\<exists>new. analyser_table (handle L req S) = analyser_table S @ new"
proof (cases req)
  case (PostStrings now v)
  obtain res S' where c: "create_string L now v S = (res, S')"
    by (cases "create_string L now v S")
  show ?thesis
  proof (cases res)
    case (Inl e)
    with c have "analyser_table S' = analyser_table S" by (simp add: create_string_failure)
    with c PostStrings show ?thesis by simp
  next
    case (Inr r)
    with c have "create_string L now v S = (Inr r, S')" by simp
    from create_string_success [OF this] obtain row where
      "analyser_table S' = analyser_table S @ [row]" by blast
    with c PostStrings show ?thesis by simp
  qed
next
  case (GetString sv)
  then show ?thesis by (simp add: get_string_table)
next
  case (GetAllStrings ip mn mx wc cc)
  then show ?thesis by (simp add: get_all_strings_table)
next
  case (FilterByNaturalLanguage reply query)
  then show ?thesis by (simp add: filter_by_natural_language_state)
qed

lemma run_grows: "\<exists>new. analyser_table (run L reqs S) = analyser_table S @ new"
proof (induction reqs arbitrary: S)
  case Nil
  then show ?case by (simp add: run_def)
next
  case (Cons req reqs)
  obtain new1 where t1: "analyser_table (handle L req S) = analyser_table S @ new1"
    using handle_grows by blast
  obtain new2 where
    t2: "analyser_table (run L reqs (handle L req S)) = analyser_table (handle L req S) @ new2"
    using Cons.IH by blast
  have "run L (req # reqs) S = run L reqs (handle L req S)" by (simp add: run_def)
  with t1 t2 show ?case by simp
qed

text \<open>The small runtime lowercases idempotently.\<close>

lemma lower_codepoint_twice:
  "concat (map lower_codepoint (lower_codepoint c)) = lower_codepoint c"
  by (simp add: lower_codepoint_def)

lemma small_lib_lower_idempotent:
  "str_lower small_lib (str_lower small_lib s) = str_lower small_lib s"
proof -
  have "concat (map lower_codepoint (concat (map lower_codepoint s)))
          = concat (map lower_codepoint s)"
    by (induction s) (simp_all add: lower_codepoint_twice)
  then show ?thesis by (simp add: small_lib_def)
qed

section \<open>Bounds of \<open>GET /strings/\<close>\<close>

text \<open>
  C1: a request to \<open>GET /strings/\<close> with both bounds and \<open>max_length < min_length\<close>
  is to be rejected with 422 before any filtering, also when a bound is \<open>0\<close>. The guard
  tests the truth value of the bounds, so with \<open>min_length=5\<close> and \<open>max_length=0\<close>
  it does not fire: the conditions \<open>length >= 5\<close> and \<open>length <= 0\<close> are built (the
  tests on lines 232 and 235 are \<open>is not None\<close>), the query runs, no row can match,
  and the answer is 404, whatever the table holds.
\<close>

theorem get_all_strings_zero_max_not_rejected:
  "get_all_strings L None (Some 5) (Some 0) None None S
     = (Inl (HTTPException 404 DOES_NOT_EXIST), execute S)"
  by (simp add: get_all_strings_def filter_conditions_def select_where_def int32_def Let_def
        filter_empty_conv)

text \<open>With both bounds other than \<open>0\<close> the guard does what the documentation says.\<close>

lemma get_all_strings_bounds_rejected:
  assumes "mx \<noteq> 0" "mn \<noteq> 0" "mx < mn"
  shows "get_all_strings L ip (Some mn) (Some mx) wc cc S
           = (Inl (HTTPException 422 ''Max length must be greater than Min length''), S)"
  using assms by (simp add: get_all_strings_def)

section \<open>The natural-language handler\<close>

text \<open>
  C2: when the remote service answers with a non-empty JSON body, the handler is to
  return the parsed filter object and never query the repository. The handler does not
  touch the database, but line 322 is \<open>return await parsed_filters\<close>: for the body
  \<open>{"min_length": 11}\<close> the \<open>await\<close> raises \<open>TypeError\<close>, and the caller gets a
  500 instead of the filter object.
\<close>

theorem filter_by_natural_language_raises:
  "filter_by_natural_language (Response (Some (JDict [(ascii ''min_length'', JInt 11)]))) query S
     = (Inl TypeError, S)"
  by (simp add: filter_by_natural_language_def)

text \<open>The same holds for every truthy body, and the state is the one passed in.\<close>

lemma filter_by_natural_language_truthy:
  "truthy body \<Longrightarrow>
     filter_by_natural_language (Response (Some body)) query S = (Inl TypeError, S)"
  by (simp add: filter_by_natural_language_def)

section \<open>\<open>POST /strings/\<close>: the order of the checks, and atomicity\<close>

text \<open>
  C10: a \<open>value\<close> that is falsy and not a string (\<open>0\<close>, \<open>false\<close>, \<open>null\<close>,
  \<open>[]\<close>, \<open>{}\<close>) is answered with 400, not with 422, and nothing is stored or
  queried: the emptiness check comes first. A truthy value that is not a string reaches
  the type check and is answered with 422.
\<close>

theorem create_string_falsy_before_type:
  "(\<not> truthy v \<longrightarrow> \<not> isinstance_str v \<longrightarrow>
      create_string L now v S = (Inl (HTTPException 400 EMPTY_STRING), S))
   \<and> (truthy v \<longrightarrow> \<not> isinstance_str v \<longrightarrow>
      create_string L now v S = (Inl (HTTPException 422 NOT_STRING), S))"
  by (cases v) (simp_all add: create_string_def)

theorem create_string_falsy_before_type_witness:
  "create_string small_lib 0 (JInt 0) empty_db = (Inl (HTTPException 400 EMPTY_STRING), empty_db)
   \<and> create_string small_lib 0 (JBool False) empty_db
       = (Inl (HTTPException 400 EMPTY_STRING), empty_db)
   \<and> create_string small_lib 0 JNull empty_db = (Inl (HTTPException 400 EMPTY_STRING), empty_db)
   \<and> create_string small_lib 0 (JList []) empty_db
       = (Inl (HTTPException 400 EMPTY_STRING), empty_db)
   \<and> create_string small_lib 0 (JDict []) empty_db
       = (Inl (HTTPException 400 EMPTY_STRING), empty_db)
   \<and> create_string small_lib 0 (JInt 5) empty_db = (Inl (HTTPException 422 NOT_STRING), empty_db)"
  using create_string_falsy_before_type [of "JInt 0" small_lib 0 empty_db]
        create_string_falsy_before_type [of "JBool False" small_lib 0 empty_db]
        create_string_falsy_before_type [of JNull small_lib 0 empty_db]
        create_string_falsy_before_type [of "JList []" small_lib 0 empty_db]
        create_string_falsy_before_type [of "JDict []" small_lib 0 empty_db]
        create_string_falsy_before_type [of "JInt 5" small_lib 0 empty_db]
  by simp

text \<open>
  C7: \<open>POST /strings/\<close> is atomic. Whenever the handler fails, with whatever error
  (400 for a falsy value, 422 for a value that is not a string, 409 for a duplicate by
  hash or by value, or an exception it does not catch), the table is as it was. When it
  succeeds, the table has exactly one row more, appended to the rows that were there,
  and the response carries that row's id, value and six properties and the creation
  time \<open>now\<close>.
\<close>

theorem create_string_atomic:
  assumes "create_string L now v S = (res, S')"
  shows "case res of
           Inl e \<Rightarrow> analyser_table S' = analyser_table S
         | Inr r \<Rightarrow>
             (\<exists>row. analyser_table S' = analyser_table S @ [row]
                \<and> id_col row = id_r r \<and> value_col row = value_r r
                \<and> properties_of_row row = properties_r r
                \<and> created_at_col row = now \<and> created_at_r r = now)"
proof (cases res)
  case (Inl e)
  with assms show ?thesis by (simp add: create_string_failure)
next
  case (Inr r)
  with assms have "create_string L now v S = (Inr r, S')" by simp
  from create_string_success [OF this] show ?thesis
    unfolding Inr by (auto simp: properties_of_row_def)
qed

theorem create_string_atomic_witness:
  "(\<exists>r S'. create_string small_lib 7 (JStr (ascii '' Madam '')) empty_db = (Inr r, S')
      \<and> (\<exists>row. analyser_table S' = analyser_table empty_db @ [row]
            \<and> id_col row = id_r r \<and> value_col row = value_r r
            \<and> properties_of_row row = properties_r r
            \<and> created_at_col row = 7 \<and> created_at_r r = 7))
   \<and> (\<exists>e S'. create_string small_lib 8 (JStr (ascii ''MADAM''))
                 (snd (create_string small_lib 7 (JStr (ascii '' Madam '')) empty_db)) = (Inl e, S')
      \<and> status_code e = 409
      \<and> analyser_table S'
          = analyser_table (snd (create_string small_lib 7 (JStr (ascii '' Madam '')) empty_db)))"
proof -
  obtain r S1 where ok:
    "create_string small_lib 7 (JStr (ascii '' Madam '')) empty_db = (Inr r, S1)"
    by (simp add: small_defs)
  obtain e S2 where dup: "create_string small_lib 8 (JStr (ascii ''MADAM''))
       (snd (create_string small_lib 7 (JStr (ascii '' Madam '')) empty_db)) = (Inl e, S2)"
    and code: "status_code e = 409"
    by (simp add: small_defs)
  show ?thesis
    using create_string_atomic [OF ok] create_string_atomic [OF dup] ok dup code
    by simp
qed

section \<open>The analyzer's properties\<close>

text \<open>
  C3: the \<open>length\<close> the analyzer reports is the number of characters of the lowercased
  string, not of the string in its original case. \<open>create_properties\<close> takes
  \<open>len\<close> of its argument, and \<open>create_string\<close> hands it \<open>value.lower()\<close>
  (line 109): applied to a lowercased string, the length reported is the length of the
  lowercased string, and the \<open>length\<close> in the response of \<open>POST /strings/\<close> is the
  length of the lowercased stripped value.
\<close>

theorem length_of_lowered:
  "(\<forall>p. create_properties L (str_lower L v) = Inr p \<longrightarrow>
        length_p p = int (length (str_lower L v)))
   \<and> (\<forall>r S'. create_string L now (JStr s) S = (Inr r, S') \<longrightarrow>
        length_p (properties_r r) = int (length (str_lower L (strip L s))))"
proof -
  have p1: "length_p p = int (length x)" if "create_properties L x = Inr p" for x p
    using that by (auto simp: create_properties_def split: sum.splits)
  have "length_p (properties_r r) = int (length (str_lower L (strip L s)))"
    if "create_string L now (JStr s) S = (Inr r, S')" for r S'
    using create_string_success [OF that] p1 by auto
  with p1 show ?thesis by blast
qed

text \<open>
  \<open>U+0130\<close> is one character and lowercases to two: the length reported is 2.
\<close>

theorem length_of_lowered_witness:
  "length [0x130 :: nat] = 1
   \<and> (\<exists>p. create_properties small_lib (str_lower small_lib [0x130]) = Inr p \<and> length_p p = 2)
   \<and> (\<exists>r S'. create_string small_lib 7 (JStr [0x130]) empty_db = (Inr r, S')
         \<and> length_p (properties_r r) = 2)"
proof -
  obtain p where a: "create_properties small_lib (str_lower small_lib [0x130]) = Inr p"
    by (simp add: small_defs)
  obtain r S' where b: "create_string small_lib 7 (JStr [0x130]) empty_db = (Inr r, S')"
    by (simp add: small_defs)
  have l: "length (str_lower small_lib [0x130]) = 2"
       "length (str_lower small_lib (strip small_lib [0x130])) = 2"
    by (simp_all add: small_defs)
  show ?thesis
    using a b l length_of_lowered [of small_lib "[0x130]" 7 "[0x130]" empty_db]
    by auto
qed

text \<open>
  C4: \<open>is_palindrome\<close> is true exactly when the lowercased string equals its own
  reverse character for character; nothing but the case is normalised, so spaces and
  punctuation count. This holds for \<open>get_is_palindrome\<close> and for the
  \<open>is_palindrome\<close> entry of \<open>create_properties\<close>.
\<close>

theorem is_palindrome_char_for_char:
  "get_is_palindrome L s = reads_same_backwards (str_lower L s)
   \<and> (\<forall>p. create_properties L s = Inr p \<longrightarrow>
          is_palindrome_p p = reads_same_backwards (str_lower L s))"
  by (auto simp: get_is_palindrome_def create_properties_def Let_def rev_eq_iff_mirror
           split: sum.splits)

theorem is_palindrome_char_for_char_witness:
  "reads_same_backwards (str_lower small_lib (ascii ''Madam''))
   \<and> \<not> reads_same_backwards (str_lower small_lib (ascii ''No lemon, no melon''))"
proof -
  have a: "get_is_palindrome small_lib (ascii ''Madam'')"
    by (simp add: small_defs)
  have b: "\<not> get_is_palindrome small_lib (ascii ''No lemon, no melon'')"
    by (simp add: small_defs)
  show ?thesis
    using a b is_palindrome_char_for_char [of small_lib "ascii ''Madam''"]
      is_palindrome_char_for_char [of small_lib "ascii ''No lemon, no melon''"]
    by simp
qed

text \<open>
  C5: the \<open>sha256_hash\<close> of the analyzer is the hexadecimal SHA-256 digest of the
  UTF-8 bytes of the lowercased string. Where the lowercased string has no UTF-8
  encoding (a lone surrogate) the analyzer raises the encoder's error and there is no
  hash. The analyzer is a function of the string alone: it reads no state and no clock,
  so the same input gives the same result.
\<close>

theorem sha256_hash_of_lowered_utf8:
  "(case create_properties L s of Inl e \<Rightarrow> Inl e | Inr p \<Rightarrow> Inr (sha256_hash_p p))
     = (case encode_utf8 (str_lower L s) of
          Inl e \<Rightarrow> Inl e
        | Inr b \<Rightarrow> Inr (sha256_hexdigest L b))"
  by (simp add: create_properties_def get_sha256_def split: sum.splits)

section \<open>\<open>GET /strings/\<close>: when it answers 404\<close>

text \<open>
  C6, as amended: a request to \<open>GET /strings/\<close> whose bounds pass the guard of line
  221 is answered with 404 in exactly two cases: the list of conditions is empty, or the
  query runs and matches no row. No other request is answered with 404, a 200 never
  carries an empty list, and its count is the length of the list. The list of
  conditions is empty exactly when no parameter is given, or only an empty
  \<open>contains_character\<close>.
\<close>

theorem get_all_strings_not_found:
  "(\<exists>e. fst (get_all_strings L ip mn mx wc cc S) = Inl e \<and> status_code e = 404)
     = (\<not> max_below_min mx mn
        \<and> (fst (filter_conditions L ip mn mx wc cc) = []
           \<or> select_where (fst (filter_conditions L ip mn mx wc cc)) S = Inr []))
   \<and> (\<forall>r. fst (get_all_strings L ip mn mx wc cc S) = Inr r \<longrightarrow>
         data_r r \<noteq> [] \<and> count_r r = int (length (data_r r)))
   \<and> (fst (filter_conditions L ip mn mx wc cc) = []
        \<longleftrightarrow> ip = None \<and> mn = None \<and> mx = None \<and> wc = None \<and> (cc = None \<or> cc = Some []))"
proof -
  have sel: "select_where c (execute S) = select_where c S" for c
    by (simp add: select_where_def)
  have a: "(\<exists>e. fst (get_all_strings L ip mn mx wc cc S) = Inl e \<and> status_code e = 404)
     = (\<not> max_below_min mx mn
        \<and> (fst (filter_conditions L ip mn mx wc cc) = []
           \<or> select_where (fst (filter_conditions L ip mn mx wc cc)) S = Inr []))"
  proof (cases "select_where (fst (filter_conditions L ip mn mx wc cc)) S")
    case (Inl e)
    then have "e = DBAPIError" by (simp add: select_where_def split: if_splits)
    with Inl show ?thesis by (auto simp: get_all_strings_def Let_def sel)
  next
    case (Inr rows)
    then show ?thesis by (auto simp: get_all_strings_def Let_def sel)
  qed
  have b: "data_r r \<noteq> [] \<and> count_r r = int (length (data_r r))"
    if "fst (get_all_strings L ip mn mx wc cc S) = Inr r" for r
    using that by (auto simp: get_all_strings_def Let_def sel split: if_splits sum.splits)
  have c: "fst (filter_conditions L ip mn mx wc cc) = []
        \<longleftrightarrow> ip = None \<and> mn = None \<and> mx = None \<and> wc = None \<and> (cc = None \<or> cc = Some [])"
    by (auto simp: filter_conditions_def Let_def split: option.splits)
  from a b c show ?thesis by blast
qed

text \<open>
  On a table that holds the one record of \<open>Madam\<close>: no parameter gives 404, a filter
  that matches nothing gives 404, a filter that matches gives a list that is not empty,
  and a bound outside 32 bits gives the database's error, not 404.
\<close>

theorem get_all_strings_not_found_witness:
  "fst (get_all_strings small_lib None None None None None
          (snd (create_string small_lib 7 (JStr (ascii '' Madam '')) empty_db)))
     = Inl (HTTPException 404 DOES_NOT_EXIST)
   \<and> fst (get_all_strings small_lib (Some False) None None None None
          (snd (create_string small_lib 7 (JStr (ascii '' Madam '')) empty_db)))
     = Inl (HTTPException 404 DOES_NOT_EXIST)
   \<and> (\<exists>r. fst (get_all_strings small_lib (Some True) None None None None
          (snd (create_string small_lib 7 (JStr (ascii '' Madam '')) empty_db))) = Inr r
        \<and> data_r r \<noteq> [] \<and> count_r r = int (length (data_r r)))
   \<and> fst (get_all_strings small_lib None (Some 2147483648) None None None
          (snd (create_string small_lib 7 (JStr (ascii '' Madam '')) empty_db)))
     = Inl DBAPIError"
proof -
  let ?D = "snd (create_string small_lib 7 (JStr (ascii '' Madam '')) empty_db)"
  have none: "fst (get_all_strings small_lib None None None None None ?D)
                = Inl (HTTPException 404 DOES_NOT_EXIST)"
    by (simp add: list_defs)
  have zero: "fst (get_all_strings small_lib (Some False) None None None None ?D)
                = Inl (HTTPException 404 DOES_NOT_EXIST)"
    by (simp add: small_defs list_defs)
  obtain r where some:
    "fst (get_all_strings small_lib (Some True) None None None None ?D) = Inr r"
    by (simp add: small_defs list_defs)
  have big: "fst (get_all_strings small_lib None (Some 2147483648) None None None ?D)
               = Inl DBAPIError"
    by (simp add: list_defs)
  show ?thesis
    using none zero some big
      get_all_strings_not_found [of small_lib "Some True" None None None None ?D]
    by simp
qed

text \<open>
  C6 as it was stated does not hold: with \<open>min_length=10\<close> and \<open>max_length=5\<close> the
  conditions match no row, and the answer is the 422 of the guard, not 404.
\<close>

theorem get_all_strings_not_found_counterexample:
  "select_where (fst (filter_conditions small_lib None (Some 10) (Some 5) None None))
      (snd (create_string small_lib 7 (JStr (ascii '' Madam '')) empty_db)) = Inr []
   \<and> fst (get_all_strings small_lib None (Some 10) (Some 5) None None
      (snd (create_string small_lib 7 (JStr (ascii '' Madam '')) empty_db)))
     = Inl (HTTPException 422 ''Max length must be greater than Min length'')"
  by (simp add: small_defs list_defs filter_empty_conv)

section \<open>Reading back what was created\<close>

text \<open>
  C8, as amended: when \<open>POST /strings/\<close> succeeds for a string, then after any
  sequence of further requests a \<open>GET /strings/{value}\<close>, asked with the string as it
  was sent or with the stored value of the response, provided that this text is not
  empty and holds no \<open>/\<close> so that the route can carry it, is answered by
  \<open>get_string\<close> with the very response of the creation: the same id, value and
  creation time, and the same \<open>length\<close>, \<open>is_palindrome\<close>,
  \<open>unique_characters\<close>, \<open>word_count\<close>, \<open>sha256_hash\<close> and
  \<open>character_frequency_map\<close>.
\<close>

theorem create_then_get_round_trip:
  assumes "create_string L now (JStr s) S = (Inr r, S')"
    and "string_value = s \<or> string_value = value_r r"
    and "string_value \<noteq> []" and "47 \<notin> set string_value"
  shows "get_strings_path L string_value (run L reqs S')
           = (FromGetString (Inr r), execute (run L reqs S'))"
proof -
  from create_string_success [OF assms(1)] obtain p where
    p: "create_properties L (str_lower L (strip L s)) = Inr p" and
    nf: "find (\<lambda>x. id_col x = sha256_hash_p p) (analyser_table S) = None" and
    r: "r = \<lparr> id_r = sha256_hash_p p, value_r = strip L s, properties_r = p,
                    created_at_r = now \<rparr>" and
    tbl: "analyser_table S' = analyser_table S @
               [\<lparr> id_col = sha256_hash_p p, sha256_hash_col = sha256_hash_p p,
                   value_col = strip L s, length_col = length_p p,
                   word_count_col = word_count_p p,
                   is_palindrome_col = is_palindrome_p p,
                   unique_characters_col = unique_characters_p p,
                   character_frequency_map_col = character_frequency_map_p p,
                   created_at_col = now \<rparr>]"
    by auto
  obtain later where
    later: "analyser_table (run L reqs S') = analyser_table S' @ later"
    using run_grows by blast
  have "strip L string_value = strip L s"
    using assms(2) r by (auto simp: strip_idem)
  moreover have "get_sha256 L (str_lower L (strip L s)) = Inr (sha256_hash_p p)"
    using p by (rule create_properties_hash)
  ultimately have
    "get_string L string_value (run L reqs S') = (Inr r, execute (run L reqs S'))"
    by (simp add: get_string_def Let_def later tbl find_append_None [OF nf] r
          properties_of_row_def)
  with assms(3,4) show ?thesis by (simp add: get_strings_path_def)
qed

text \<open>
  \<open>Hello, World!\<close> is created, then \<open>Madam\<close>, a list is asked and the first
  string is posted again; the GET that follows returns the first response.
\<close>

theorem create_then_get_round_trip_witness:
  "\<exists>r S'. create_string small_lib 7 (JStr (ascii '' Hello, World! '')) empty_db = (Inr r, S')
     \<and> value_r r = ascii ''Hello, World!''
     \<and> word_count_p (properties_r r) = 2
     \<and> fst (get_strings_path small_lib (ascii '' Hello, World! '')
              (run small_lib [PostStrings 8 (JStr (ascii ''Madam'')),
                              GetAllStrings (Some True) None None None None,
                              PostStrings 9 (JStr (ascii ''hello, world!''))] S'))
         = FromGetString (Inr r)
     \<and> fst (get_strings_path small_lib (ascii ''Hello, World!'')
              (run small_lib [PostStrings 8 (JStr (ascii ''Madam'')),
                              GetAllStrings (Some True) None None None None,
                              PostStrings 9 (JStr (ascii ''hello, world!''))] S'))
         = FromGetString (Inr r)"
proof -
  obtain r S' where c:
    "create_string small_lib 7 (JStr (ascii '' Hello, World! '')) empty_db = (Inr r, S')"
    and v: "value_r r = ascii ''Hello, World!''"
    and w: "word_count_p (properties_r r) = 2"
    by (simp add: small_defs)
  have a: "ascii '' Hello, World! '' \<noteq> []" "47 \<notin> set (ascii '' Hello, World! '')"
          "ascii ''Hello, World!'' \<noteq> []" "47 \<notin> set (ascii ''Hello, World!'')"
    by (simp_all add: ascii_def)
  from create_then_get_round_trip [OF c _ a(1,2)] create_then_get_round_trip [OF c _ a(3,4)]
       c v w
  show ?thesis by simp
qed

text \<open>
  C8 as it was stated does not hold for every string that can be created. Creating
  \<open>a/b\<close> succeeds, and the request \<open>GET /strings/a/b\<close> matches no route: the
  framework answers it and \<open>get_string\<close> never runs. Creating a string of two spaces
  succeeds and stores the empty value, and \<open>GET /strings/\<close> is the list operation,
  which answers 404.
\<close>

theorem create_then_get_round_trip_counterexample:
  "map_sum status_code value_r (fst (create_string small_lib 7 (JStr (ascii ''a/b'')) empty_db))
     = Inr (ascii ''a/b'')
   \<and> fst (get_strings_path small_lib (ascii ''a/b'')
            (snd (create_string small_lib 7 (JStr (ascii ''a/b'')) empty_db))) = FromRouter
   \<and> map_sum status_code value_r (fst (create_string small_lib 7 (JStr (ascii ''  '')) empty_db))
     = Inr []
   \<and> fst (get_strings_path small_lib []
            (snd (create_string small_lib 7 (JStr (ascii ''  '')) empty_db)))
     = FromGetAllStrings (Inl (HTTPException 404 DOES_NOT_EXIST))"
  by (simp add: small_defs list_defs get_strings_path_def)

section \<open>The invariant of the stored records\<close>

text \<open>
  C9: every record the service persists has \<open>id\<close> equal to \<open>sha256_hash\<close>, both
  the SHA-256 hexadecimal digest of the lowercased stored value, and a frequency map
  without whitespace keys; and no operation modifies or deletes a record: after any
  sequence of requests the table is the old table followed by new rows. The handler
  hashes \<open>value.lower().lower()\<close>, so the digest is that of the lowercased value
  because lowercasing an already lowercased string changes nothing, which is the
  assumption on \<open>str.lower\<close> here. The records of the starting table are assumed
  to satisfy the invariant; the empty table does.
\<close>

theorem persisted_records_invariant:
  assumes "\<And>s. str_lower L (str_lower L s) = str_lower L s"
    and "list_all (record_invariant L) (analyser_table S)"
  shows "list_all (record_invariant L) (analyser_table (run L reqs S))
         \<and> (\<exists>new. analyser_table (run L reqs S) = analyser_table S @ new)"
  using assms(2)
proof (induction reqs arbitrary: S)
  case Nil
  then show ?case by (simp add: run_def)
next
  case (Cons req reqs)
  from handle_step [OF assms(1) Cons.prems, of req] obtain new1 where
    i1: "list_all (record_invariant L) (analyser_table (handle L req S))" and
    t1: "analyser_table (handle L req S) = analyser_table S @ new1" by blast
  from Cons.IH [OF i1] obtain new2 where
    i2: "list_all (record_invariant L) (analyser_table (run L reqs (handle L req S)))" and
    t2: "analyser_table (run L reqs (handle L req S)) = analyser_table (handle L req S) @ new2"
    by blast
  have "run L (req # reqs) S = run L reqs (handle L req S)" by (simp add: run_def)
  with i2 t1 t2 show ?case by simp
qed

theorem persisted_records_invariant_witness:
  "list_all (record_invariant small_lib)
     (analyser_table (run small_lib
        [PostStrings 7 (JStr (ascii '' Madam '')),
         PostStrings 8 (JStr (ascii ''MADAM'')),
         GetString (ascii ''madam''),
         PostStrings 9 (JStr (ascii ''a b''))] empty_db))
   \<and> map value_col (analyser_table (run small_lib
        [PostStrings 7 (JStr (ascii '' Madam '')),
         PostStrings 8 (JStr (ascii ''MADAM'')),
         GetString (ascii ''madam''),
         PostStrings 9 (JStr (ascii ''a b''))] empty_db)) = [ascii ''Madam'', ascii ''a b'']"
proof -
  have e: "list_all (record_invariant small_lib) (analyser_table empty_db)"
    by (simp add: empty_db_def)
  have v: "map value_col (analyser_table (run small_lib
        [PostStrings 7 (JStr (ascii '' Madam '')),
         PostStrings 8 (JStr (ascii ''MADAM'')),
         GetString (ascii ''madam''),
         PostStrings 9 (JStr (ascii ''a b''))] empty_db)) = [ascii ''Madam'', ascii ''a b'']"
    by (simp add: run_def small_defs get_string_def)
  from persisted_records_invariant [OF small_lib_lower_idempotent e] v show ?thesis by simp
qed

end
